theory Spec2Isabelle
  imports Complex_Main "HOL-Library.Sublist"
begin

section \<open>Sema-ASR: the transcription service of \<^verbatim>\<open>src/asr.py\<close>\<close>

text \<open>
  The development embeds the request-handling path of \<^verbatim>\<open>src/Sema-ASR/src/asr.py\<close>:
  the module globals and \<^verbatim>\<open>load_model\<close>, \<^verbatim>\<open>preprocess_audio\<close>, \<^verbatim>\<open>transcribe\<close>,
  the handler \<^verbatim>\<open>transcribe_audio\<close> of \<^verbatim>\<open>POST /transcribe/\<close> and \<^verbatim>\<open>health_check\<close> of
  \<^verbatim>\<open>GET /health\<close>.

  Conventions.
  \<^item> A Python \<^verbatim>\<open>str\<close> is a HOL \<open>string\<close>; a \<open>char\<close> stands for a code point below 256
    (Latin-1). \<^verbatim>\<open>str.lower\<close> and \<^verbatim>\<open>str.strip\<close> are modelled on that range.
  \<^item> Exceptions are values: a function that may raise returns \<open>exn + 'a\<close>, with \<open>Inl\<close> the
    exception. Only the \<^verbatim>\<open>Exception\<close> hierarchy is modelled (every \<^verbatim>\<open>except Exception\<close> of
    the source is then a catch-all); \<^verbatim>\<open>KeyboardInterrupt\<close> and \<^verbatim>\<open>SystemExit\<close> are outside it.
  \<^item> The standard-library calls whose result decides a branch (\<^verbatim>\<open>os.path.splitext\<close>,
    the \<^verbatim>\<open>str\<close> methods, the naming of \<^verbatim>\<open>tempfile\<close>) are modelled as documented.
    \<^verbatim>\<open>librosa.load\<close> is modelled from its documentation, over a decoder and a resampling
    filter that stay parameters. The other third-party objects (transformers, torch) and
    the failures of the operating system are parameters: records of functions and of
    outcomes, never fixed behaviour.
  \<^item> Calls to \<^verbatim>\<open>logger\<close> have no effect on the result and are left out.
\<close>

subsection \<open>Exceptions and HTTP outcomes\<close>

text \<open>\<^verbatim>\<open>class ASRError(Exception)\<close>, and every other subclass of \<^verbatim>\<open>Exception\<close>; the
  string is \<^verbatim>\<open>str(e)\<close>.\<close>

datatype exn = ASRError string | OtherException string

fun str_exn :: "exn \<Rightarrow> string" where
  "str_exn (ASRError m) = m"
| "str_exn (OtherException m) = m"

datatype json = JStr string | JBool bool | JInt int | JNull

text \<open>A Python \<^verbatim>\<open>dict\<close> with string keys, in insertion order.\<close>

type_synonym jobj = "(string \<times> json) list"

text \<open>What a handler does: it returns a dict (FastAPI answers 200 with it as the JSON
  body) or raises \<^verbatim>\<open>HTTPException(status_code, detail)\<close>.\<close>

datatype outcome = Returned jobj | HTTPException nat string

fun status_code :: "outcome \<Rightarrow> nat" where
  "status_code (Returned _) = 200"
| "status_code (HTTPException s _) = s"

definition HTTP_400_BAD_REQUEST :: nat where
  "HTTP_400_BAD_REQUEST = 400"

definition HTTP_422_UNPROCESSABLE_ENTITY :: nat where
  "HTTP_422_UNPROCESSABLE_ENTITY = 422"

definition HTTP_500_INTERNAL_SERVER_ERROR :: nat where
  "HTTP_500_INTERNAL_SERVER_ERROR = 500"

subsection \<open>Strings: \<^verbatim>\<open>lower\<close>, \<^verbatim>\<open>strip\<close>, \<^verbatim>\<open>join\<close>, \<^verbatim>\<open>os.path.splitext\<close>\<close>

text \<open>\<^verbatim>\<open>str.lower\<close> on Latin-1: \<^verbatim>\<open>A\<close>..\<^verbatim>\<open>Z\<close> and U+00C0..U+00DE without U+00D7 move up by 32.\<close>

definition lower_char :: "char \<Rightarrow> char" where
  "lower_char c =
     (let n = (of_char c :: nat)
      in if (65 \<le> n \<and> n \<le> 90) \<or> (192 \<le> n \<and> n \<le> 222 \<and> n \<noteq> 215)
         then char_of (n + 32) else c)"

definition lower :: "string \<Rightarrow> string" where
  "lower s = map lower_char s"

text \<open>\<^verbatim>\<open>str.isspace\<close> on one Latin-1 code point: U+0009..U+000D, U+001C..U+0020, U+0085,
  U+00A0.\<close>

definition isspace :: "char \<Rightarrow> bool" where
  "isspace c =
     (let n = (of_char c :: nat)
      in (9 \<le> n \<and> n \<le> 13) \<or> (28 \<le> n \<and> n \<le> 32) \<or> n = 133 \<or> n = 160)"

text \<open>\<^verbatim>\<open>str.strip()\<close>: leading and trailing whitespace removed.\<close>

definition strip :: "string \<Rightarrow> string" where
  "strip s = rev (dropWhile isspace (rev (dropWhile isspace s)))"

text \<open>\<^verbatim>\<open>sep.join(xs)\<close>.\<close>

fun join :: "string \<Rightarrow> string list \<Rightarrow> string" where
  "join sep [] = []"
| "join sep [x] = x"
| "join sep (x # y # ys) = x @ sep @ join sep (y # ys)"

text \<open>\<^verbatim>\<open>p.rfind(c)\<close> for a one-character \<^verbatim>\<open>c\<close>: the highest index holding \<^verbatim>\<open>c\<close>, or -1.
  \<open>rfind_from\<close> scans from index \<open>i\<close> and remembers the last hit.\<close>

fun rfind_from :: "char \<Rightarrow> string \<Rightarrow> int \<Rightarrow> int \<Rightarrow> int" where
  "rfind_from c [] i best = best"
| "rfind_from c (x # xs) i best = rfind_from c xs (i + 1) (if x = c then i else best)"

definition rfind :: "char \<Rightarrow> string \<Rightarrow> int" where
  "rfind c p = rfind_from c p 0 (- 1)"

text \<open>The loop of \<^verbatim>\<open>genericpath._splitext\<close> that skips leading dots:
  \<^verbatim>\<open>
  while filenameIndex < dotIndex:
      if p[filenameIndex:filenameIndex+1] != extsep:
          return p[:dotIndex], p[dotIndex:]
      filenameIndex += 1
  \<close>
  \<open>True\<close> when it returns from inside the loop.\<close>

function splitext_loop :: "string \<Rightarrow> int \<Rightarrow> int \<Rightarrow> bool" where
  "splitext_loop p filenameIndex dotIndex =
     (if filenameIndex < dotIndex
      then (if take 1 (drop (nat filenameIndex) p) \<noteq> ''.'' then True
            else splitext_loop p (filenameIndex + 1) dotIndex)
      else False)"
  by pat_completeness auto
termination
  by (relation "measure (\<lambda>(p, i, d). nat (d - i))") auto

text \<open>\<^verbatim>\<open>os.path.splitext\<close> (posixpath: separator \<^verbatim>\<open>/\<close>, no alternative separator).\<close>

definition splitext :: "string \<Rightarrow> string \<times> string" where
  "splitext p =
     (let sepIndex = rfind CHR ''/'' p;
          dotIndex = rfind CHR ''.'' p
      in if dotIndex > sepIndex \<and> splitext_loop p (sepIndex + 1) dotIndex
         then (take (nat dotIndex) p, drop (nat dotIndex) p)
         else (p, []))"

subsection \<open>The upload and its validation\<close>

text \<open>What the handler reads of the request: \<^verbatim>\<open>file.filename\<close>, \<^verbatim>\<open>file.content_type\<close>,
  what \<^verbatim>\<open>await file.read()\<close> gives, and the query parameter \<^verbatim>\<open>language\<close> (\<open>None\<close> when
  the request omits it).\<close>

record request =
  filename :: "string option"
  content_type :: "string option"
  read_result :: "exn + string"
  language :: "string option"

text \<open>\<^verbatim>\<open>audio_extensions = {'.wav', '.mp3', '.ogg', '.flac', '.aac', '.m4a', '.wma'}\<close>\<close>

definition audio_extensions :: "string set" where
  "audio_extensions = {''.wav'', ''.mp3'', ''.ogg'', ''.flac'', ''.aac'', ''.m4a'', ''.wma''}"

text \<open>\<^verbatim>\<open>file_extension = os.path.splitext(file.filename or '')[1].lower()\<close>\<close>

definition file_extension :: "request \<Rightarrow> string" where
  "file_extension r =
     lower (snd (splitext (case filename r of None \<Rightarrow> [] | Some f \<Rightarrow> f)))"

text \<open>The parameter's default: \<^verbatim>\<open>language: Optional[str] = "sw"\<close>.\<close>

definition language_of :: "request \<Rightarrow> string" where
  "language_of r = (case language r of None \<Rightarrow> ''sw'' | Some l \<Rightarrow> l)"

text \<open>The two checks of the handler, in the source's order; \<open>None\<close> when the upload
  passes. \<open>iter\<close> is the order in which Python iterates the set \<^verbatim>\<open>audio_extensions\<close>
  (it depends on the process's string hashing).\<close>

definition validate :: "string list \<Rightarrow> request \<Rightarrow> outcome option" where
  "validate iter r =
     (if content_type r \<noteq> None \<and> \<not> prefix ''audio/'' (the (content_type r))
      then Some (HTTPException HTTP_400_BAD_REQUEST
             (''Invalid file type. Expected audio file, got '' @ the (content_type r)))
      else if file_extension r \<notin> audio_extensions
      then Some (HTTPException HTTP_400_BAD_REQUEST
             (''Unsupported audio format. Supported formats: '' @ join '', '' iter))
      else None)"

subsection \<open>Tensors\<close>

text \<open>A numpy array or torch tensor as nested lists: \<open>Dim [t\<^sub>1, \<dots>, t\<^sub>n]\<close> has a leading
  axis of size \<open>n\<close>. Samples are \<^verbatim>\<open>float32\<close> values; nothing here computes with them.\<close>

datatype 'a tensor = Scalar 'a | Dim "'a tensor list"

text \<open>A one-dimensional array.\<close>

definition vec :: "'a list \<Rightarrow> 'a tensor" where
  "vec xs = Dim (map Scalar xs)"

text \<open>\<^verbatim>\<open>t.unsqueeze(0)\<close>: a new leading axis of size 1.\<close>

definition unsqueeze0 :: "'a tensor \<Rightarrow> 'a tensor" where
  "unsqueeze0 t = Dim [t]"

text \<open>\<^verbatim>\<open>t.squeeze()\<close>: every axis of size 1 removed.\<close>

fun squeeze :: "'a tensor \<Rightarrow> 'a tensor" where
  "squeeze (Scalar a) = Scalar a"
| "squeeze (Dim ts) = (case map squeeze ts of [t] \<Rightarrow> t | ts' \<Rightarrow> Dim ts')"

subsection \<open>The engine: globals, \<^verbatim>\<open>load_model\<close>, \<^verbatim>\<open>preprocess_audio\<close>, \<^verbatim>\<open>transcribe\<close>\<close>

text \<open>The files on disk: path to contents.\<close>

type_synonym filesystem = "string \<rightharpoonup> string"

definition SAMPLE_RATE :: nat where
  "SAMPLE_RATE = 16000"

definition MAX_INPUT_LENGTH :: nat where
  "MAX_INPUT_LENGTH = 30"

text \<open>\<^verbatim>\<open>librosa.load(path, sr=, mono=, duration=)\<close> on a file system: it raises, or returns
  the waveform and its sampling rate. \<^verbatim>\<open>preprocess_audio\<close> and \<^verbatim>\<open>transcribe\<close> take it as a
  parameter; \<open>librosa_load\<close> below is the library's.\<close>

type_synonym loader =
  "filesystem \<Rightarrow> string \<Rightarrow> nat \<Rightarrow> bool \<Rightarrow> nat \<Rightarrow> exn + (real tensor \<times> nat)"

text \<open>A loaded \<^verbatim>\<open>Wav2Vec2Processor\<close>, by the two calls the code makes on it:
  \<^verbatim>\<open>asr_processor(array, sampling_rate=, return_tensors="pt", padding=True)\<close> and
  \<^verbatim>\<open>asr_processor.batch_decode(ids)\<close>.\<close>

record processor =
  featurize :: "real tensor \<Rightarrow> nat \<Rightarrow> exn + (string \<times> real tensor) list"
  batch_decode :: "nat tensor \<Rightarrow> exn + string list"

text \<open>A loaded \<^verbatim>\<open>Wav2Vec2ForCTC\<close>. \<open>predict device inputs\<close> stands for lines 147 to 154:
  the inputs moved to the device, \<^verbatim>\<open>asr_model(**inputs).logits\<close> and
  \<^verbatim>\<open>torch.argmax(logits, dim=-1)\<close>.\<close>

record model =
  predict :: "string option \<Rightarrow> (string \<times> real tensor) list \<Rightarrow> exn + nat tensor"

text \<open>The module's global variables; \<open>None\<close> is Python's \<^verbatim>\<open>None\<close>.\<close>

record globals =
  asr_processor :: "processor option"
  asr_model :: "model option"
  asr_device :: "string option"

text \<open>The module before \<^verbatim>\<open>load_model()\<close> has run (lines 36 to 38).\<close>

definition initial_globals :: globals where
  "initial_globals = \<lparr>asr_processor = None, asr_model = None, asr_device = None\<rparr>"

text \<open>What \<^verbatim>\<open>load_model\<close> calls: \<^verbatim>\<open>torch.cuda.is_available()\<close>,
  \<^verbatim>\<open>Wav2Vec2Processor.from_pretrained(name)\<close>, and
  \<^verbatim>\<open>Wav2Vec2ForCTC.from_pretrained(name).to(device)\<close> followed by \<^verbatim>\<open>.eval()\<close>.\<close>

record hub =
  cuda_is_available :: bool
  processor_from_pretrained :: "string \<Rightarrow> exn + processor"
  model_from_pretrained :: "string \<Rightarrow> string \<Rightarrow> exn + model"

text \<open>\<^verbatim>\<open>load_model(model_name)\<close>: the exception it raises (if any) and the globals it
  leaves. The globals assigned before a failure keep their new values.\<close>

definition load_model :: "hub \<Rightarrow> string \<Rightarrow> globals \<Rightarrow> exn option \<times> globals" where
  "load_model H model_name g =
     (let dev = (if cuda_is_available H then ''cuda'' else ''cpu'');
          g1 = g\<lparr>asr_device := Some dev\<rparr>
      in case processor_from_pretrained H model_name of
           Inl e \<Rightarrow> (Some (ASRError (''Failed to load ASR model: '' @ str_exn e)), g1)
         | Inr P \<Rightarrow>
             (let g2 = g1\<lparr>asr_processor := Some P\<rparr>
              in case model_from_pretrained H model_name dev of
                   Inl e \<Rightarrow> (Some (ASRError (''Failed to load ASR model: '' @ str_exn e)), g2)
                 | Inr M \<Rightarrow> (None, g2\<lparr>asr_model := Some M\<rparr>)))"

text \<open>\<^verbatim>\<open>preprocess_audio(audio_path)\<close>: the loader is called with \<^verbatim>\<open>sr=SAMPLE_RATE\<close>,
  \<^verbatim>\<open>mono=True\<close>, \<^verbatim>\<open>duration=MAX_INPUT_LENGTH\<close>; the rate it returns is dropped and the
  waveform gets a batch axis. Any exception becomes an \<^verbatim>\<open>ASRError\<close>.\<close>

definition preprocess_audio :: "loader \<Rightarrow> filesystem \<Rightarrow> string \<Rightarrow> exn + real tensor" where
  "preprocess_audio load fs audio_path =
     (case load fs audio_path SAMPLE_RATE True MAX_INPUT_LENGTH of
        Inl e \<Rightarrow> Inl (ASRError (''Error processing audio: '' @ str_exn e))
      | Inr (waveform, sample_rate) \<Rightarrow> Inr (unsqueeze0 waveform))"

text \<open>The \<^verbatim>\<open>try\<close> block of \<^verbatim>\<open>transcribe\<close> (lines 135 to 158). Taking element 0 of an
  empty \<^verbatim>\<open>batch_decode\<close> result is an \<^verbatim>\<open>IndexError\<close>.\<close>

definition transcribe_try ::
  "loader \<Rightarrow> processor \<Rightarrow> model \<Rightarrow> string option \<Rightarrow> filesystem \<Rightarrow> string \<Rightarrow> exn + string" where
  "transcribe_try load P M dev fs audio_path =
     (case preprocess_audio load fs audio_path of
        Inl e \<Rightarrow> Inl e
      | Inr waveform \<Rightarrow>
     (case featurize P (squeeze waveform) SAMPLE_RATE of
        Inl e \<Rightarrow> Inl e
      | Inr inputs \<Rightarrow>
     (case predict M dev inputs of
        Inl e \<Rightarrow> Inl e
      | Inr predicted_ids \<Rightarrow>
     (case batch_decode P predicted_ids of
        Inl e \<Rightarrow> Inl e
      | Inr [] \<Rightarrow> Inl (OtherException ''list index out of range'')
      | Inr (transcription # _) \<Rightarrow> Inr (strip transcription)))))"

text \<open>\<^verbatim>\<open>transcribe(audio_path)\<close>: the check on the globals is outside the \<^verbatim>\<open>try\<close>, so its
  \<^verbatim>\<open>ASRError\<close> is raised as it is; every exception of the \<^verbatim>\<open>try\<close> block is wrapped.\<close>

definition transcribe :: "loader \<Rightarrow> globals \<Rightarrow> filesystem \<Rightarrow> string \<Rightarrow> exn + string" where
  "transcribe load g fs audio_path =
     (case (asr_processor g, asr_model g) of
        (Some P, Some M) \<Rightarrow>
          (case transcribe_try load P M (asr_device g) fs audio_path of
             Inl e \<Rightarrow> Inl (ASRError (''Transcription failed: '' @ str_exn e))
           | Inr text \<Rightarrow> Inr text)
      | _ \<Rightarrow> Inl (ASRError ''ASR model not loaded''))"

subsection \<open>\<^verbatim>\<open>GET /health\<close>\<close>

text \<open>The \<^verbatim>\<open>try\<close> block of \<^verbatim>\<open>health_check\<close>. \<^verbatim>\<open>str(asr_device) if asr_device else "unknown"\<close>:
  \<^verbatim>\<open>None\<close> and the empty string are falsy.\<close>

definition health_try :: "globals \<Rightarrow> exn + jobj" where
  "health_try g =
     (let model_status = (if asr_model g \<noteq> None then ''loaded'' else ''not loaded'');
          device = (case asr_device g of
                      None \<Rightarrow> ''unknown''
                    | Some d \<Rightarrow> if d \<noteq> [] then d else ''unknown'')
      in Inr [(''status'', JStr ''healthy''),
              (''model_loaded'', JBool (asr_model g \<noteq> None)),
              (''model_status'', JStr model_status),
              (''device'', JStr device),
              (''max_audio_length_seconds'', JInt (int MAX_INPUT_LENGTH)),
              (''sample_rate'', JInt (int SAMPLE_RATE))])"

text \<open>The \<^verbatim>\<open>except Exception\<close> clause of \<^verbatim>\<open>health_check\<close>, on the outcome of its
  \<^verbatim>\<open>try\<close> block.\<close>

definition health_except :: "exn + jobj \<Rightarrow> outcome" where
  "health_except body =
     (case body of
        Inr response \<Rightarrow> Returned response
      | Inl e \<Rightarrow> Returned [(''status'', JStr ''unhealthy''), (''error'', JStr (str_exn e))])"

definition health_check :: "globals \<Rightarrow> outcome" where
  "health_check g = health_except (health_try g)"

subsection \<open>\<^verbatim>\<open>POST /transcribe/\<close>\<close>

text \<open>The state a request runs in and changes: the files on disk, and two logs kept
  for the proofs, of the temporary files created and of the paths the engine was
  called with.\<close>

record world =
  files :: filesystem
  created :: "string list"
  engine_calls :: "string list"

text \<open>What the operating system and the runtime decide for one request:
  \<^item> \<open>set_iter\<close>: the order in which the set \<^verbatim>\<open>audio_extensions\<close> is iterated;
  \<^item> \<open>tmp_error\<close>: \<^verbatim>\<open>NamedTemporaryFile\<close> raising before it creates anything
    (no usable temporary directory);
  \<^item> \<open>tmp_names\<close>: the names its random generator proposes, in order, without suffix;
  \<^item> \<open>write_error\<close>: \<^verbatim>\<open>temp_file.write\<close>, or the flush when the \<^verbatim>\<open>with\<close> block closes
    the file, raising;
  \<^item> \<open>unlink_error\<close>: \<^verbatim>\<open>os.unlink\<close> raising.\<close>

record os_env =
  set_iter :: "string list"
  tmp_error :: "exn option"
  tmp_names :: "string list"
  write_error :: "exn option"
  unlink_error :: "exn option"

text \<open>\<^verbatim>\<open>tempfile.NamedTemporaryFile(delete=False, suffix=".wav")\<close>: the first proposed name
  that no file has is created, empty; the module raises \<^verbatim>\<open>FileExistsError\<close> when every
  proposed name is taken.\<close>

definition NamedTemporaryFile :: "os_env \<Rightarrow> world \<Rightarrow> (exn + string) \<times> world" where
  "NamedTemporaryFile E w =
     (case tmp_error E of
        Some e \<Rightarrow> (Inl e, w)
      | None \<Rightarrow>
          (case find (\<lambda>p. files w p = None) (map (\<lambda>n. n @ ''.wav'') (tmp_names E)) of
             None \<Rightarrow> (Inl (OtherException ''No usable temporary file name found''), w)
           | Some p \<Rightarrow>
               (Inr p, w\<lparr>files := (files w)(p \<mapsto> []), created := created w @ [p]\<rparr>)))"

text \<open>The first \<^verbatim>\<open>try\<close> block of the handler (lines 196 to 200): the exception it raises,
  or \<^verbatim>\<open>temp_file_path\<close>. With \<^verbatim>\<open>delete=False\<close> leaving the \<^verbatim>\<open>with\<close> block closes the file and
  keeps it, also when \<^verbatim>\<open>read\<close> or \<^verbatim>\<open>write\<close> raised.\<close>

definition stage :: "os_env \<Rightarrow> request \<Rightarrow> world \<Rightarrow> (exn + string) \<times> world" where
  "stage E r w =
     (case NamedTemporaryFile E w of
        (Inl e, w1) \<Rightarrow> (Inl e, w1)
      | (Inr temp_file_path, w1) \<Rightarrow>
          (case read_result r of
             Inl e \<Rightarrow> (Inl e, w1)
           | Inr contents \<Rightarrow>
               (case write_error E of
                  Some e \<Rightarrow> (Inl e, w1)
                | None \<Rightarrow>
                    (Inr temp_file_path,
                     w1\<lparr>files := (files w1)(temp_file_path \<mapsto> contents)\<rparr>))))"

text \<open>The \<^verbatim>\<open>finally\<close> block (lines 245 to 251): \<^verbatim>\<open>os.unlink\<close> when \<^verbatim>\<open>os.path.exists\<close>; an
  exception of \<^verbatim>\<open>os.unlink\<close> is logged and dropped.\<close>

definition cleanup :: "os_env \<Rightarrow> string \<Rightarrow> world \<Rightarrow> world" where
  "cleanup E temp_file_path w =
     (if files w temp_file_path \<noteq> None
      then (case unlink_error E of
              None \<Rightarrow> w\<lparr>files := (files w)(temp_file_path := None)\<rparr>
            | Some e \<Rightarrow> w)
      else w)"

text \<open>The second \<^verbatim>\<open>try\<close> block with its two \<^verbatim>\<open>except\<close> clauses (lines 211 to 243), on the
  outcome of the call \<^verbatim>\<open>transcribe(temp_file_path)\<close>.\<close>

definition respond :: "request \<Rightarrow> exn + string \<Rightarrow> outcome" where
  "respond r result =
     (case result of
        Inr transcription \<Rightarrow>
          Returned [(''status'', JStr ''success''),
                    (''transcription'', JStr transcription),
                    (''language'', JStr (language_of r)),
                    (''model'', JStr ''RareElf/swahili-wav2vec2-asr''),
                    (''model_version'', JStr ''1.0.0''),
                    (''duration_seconds'', JNull)]
      | Inl (ASRError m) \<Rightarrow>
          HTTPException HTTP_422_UNPROCESSABLE_ENTITY (''ASR processing error: '' @ m)
      | Inl (OtherException m) \<Rightarrow>
          HTTPException HTTP_500_INTERNAL_SERVER_ERROR
            ''An unexpected error occurred during transcription'')"

text \<open>The engine as the handler sees it: the callable bound to the module name
  \<^verbatim>\<open>transcribe\<close>, reading the disk.\<close>

type_synonym engine = "filesystem \<Rightarrow> string \<Rightarrow> exn + string"

text \<open>\<^verbatim>\<open>transcribe_audio(file, language)\<close>: the response, and the world it leaves.\<close>

definition transcribe_audio :: "engine \<Rightarrow> os_env \<Rightarrow> request \<Rightarrow> world \<Rightarrow> outcome \<times> world" where
  "transcribe_audio eng E r w =
     (case validate (set_iter E) r of
        Some rejected \<Rightarrow> (rejected, w)
      | None \<Rightarrow>
          (case stage E r w of
             (Inl e, w1) \<Rightarrow>
               (HTTPException HTTP_500_INTERNAL_SERVER_ERROR
                  (''Failed to save uploaded file: '' @ str_exn e), w1)
           | (Inr temp_file_path, w1) \<Rightarrow>
               (let w2 = w1\<lparr>engine_calls := engine_calls w1 @ [temp_file_path]\<rparr>;
                    response = respond r (eng (files w2) temp_file_path)
                in (response, cleanup E temp_file_path w2))))"

subsection \<open>The audio loader\<close>

text \<open>A decoded audio file: its native sampling rate and its frames in order, each
  frame holding one sample per channel.\<close>

record audio =
  native_rate :: nat
  frames :: "real list list"

text \<open>The decoder behind the loader (soundfile or audioread), from the bytes of a file;
  and the interpolation filter of the resampler. Both are floating-point code of the
  libraries and stay parameters.\<close>

type_synonym codec = "string \<Rightarrow> exn + audio"

type_synonym resampler = "nat \<Rightarrow> nat \<Rightarrow> real list \<Rightarrow> real list"

text \<open>\<^verbatim>\<open>librosa.to_mono\<close>: the mean over the channels, frame by frame.\<close>

definition librosa_to_mono :: "real list list \<Rightarrow> real list" where
  "librosa_to_mono y = map (\<lambda>frame. sum_list frame / real (length frame)) y"

text \<open>\<^verbatim>\<open>librosa.util.fix_length(y, size=n)\<close>: cut, or padded with zeros, to \<open>n\<close> samples.\<close>

definition fix_length :: "nat \<Rightarrow> real list \<Rightarrow> real list" where
  "fix_length n y = take n y @ replicate (n - length y) 0"

text \<open>\<^verbatim>\<open>librosa.resample(y, orig_sr=, target_sr=)\<close>: the signal itself when the rates are
  equal; else the filter's output fixed to \<^verbatim>\<open>ceil(len(y) * target_sr / orig_sr)\<close> samples.\<close>

definition librosa_resample :: "resampler \<Rightarrow> nat \<Rightarrow> nat \<Rightarrow> real list \<Rightarrow> real list" where
  "librosa_resample interp orig_sr target_sr y =
     (if orig_sr = target_sr then y
      else fix_length ((length y * target_sr + orig_sr - 1) div orig_sr)
             (interp orig_sr target_sr y))"

text \<open>Modelled from the spec: \<^verbatim>\<open>librosa.load\<close> is third-party code that is not in the
  repository; section 4.2 of the specification gives what it is used for (audio longer
  than the maximum duration is truncated to that duration, sampling is normalised to
  the fixed rate, the signal is down-mixed to a single channel), and the library's
  documentation gives the order and the lengths: at most \<^verbatim>\<open>int(duration * native rate)\<close>
  frames are read from the start of the file, \<^verbatim>\<open>mono=True\<close> averages the channels, the
  result is resampled from the native rate to \<^verbatim>\<open>sr\<close>, and \<^verbatim>\<open>sr\<close> is returned with it. A
  missing or undecodable file raises.\<close>

definition librosa_load :: "codec \<Rightarrow> resampler \<Rightarrow> loader" where
  "librosa_load decode interp fs path sr mono_flag duration =
     (case fs path of
        None \<Rightarrow> Inl (OtherException ''No such file or directory'')
      | Some bytes \<Rightarrow>
          (case decode bytes of
             Inl e \<Rightarrow> Inl e
           | Inr a \<Rightarrow>
               (let y = take (duration * native_rate a) (frames a);
                    channels = (if mono_flag then [librosa_to_mono y] else transpose y);
                    out = map (librosa_resample interp (native_rate a) sr) channels
                in Inr (case out of [c] \<Rightarrow> vec c | cs \<Rightarrow> Dim (map vec cs), sr))))"

subsection \<open>Whitespace at the ends of a string\<close>

text \<open>A string with no leading and no trailing whitespace character.\<close>

definition trimmed :: "string \<Rightarrow> bool" where
  "trimmed s = (case s of [] \<Rightarrow> True | c # _ \<Rightarrow> \<not> isspace c \<and> \<not> isspace (last s))"

subsection \<open>Example requests and environments\<close>

text \<open>Concrete inputs on which the model is run below: the two uploads of the
  specification's scenarios, an upload without a name, a text file declared as audio,
  an operating system where nothing fails, one whose disk is full, one that refuses to
  delete, stand-ins for the third-party objects, and two decoded stereo files: 31 seconds
  at 1 Hz, and two frames at 16 kHz.\<close>

definition sample_wav :: request where
  "sample_wav = \<lparr>filename = Some ''sample.wav'', content_type = Some ''audio/wav'',
                  read_result = Inr ''RIFF'', language = None\<rparr>"

definition notes_txt :: request where
  "notes_txt = \<lparr>filename = Some ''notes.txt'', content_type = Some ''text/plain'',
                 read_result = Inr ''hello'', language = None\<rparr>"

definition notes_as_audio :: request where
  "notes_as_audio = \<lparr>filename = Some ''notes.txt'', content_type = Some ''audio/wav'',
                      read_result = Inr ''hello'', language = None\<rparr>"

definition unnamed_upload :: request where
  "unnamed_upload = \<lparr>filename = None, content_type = None,
                      read_result = Inr ''RIFF'', language = Some ''en''\<rparr>"

definition quiet_os :: os_env where
  "quiet_os = \<lparr>set_iter = [''.wav'', ''.mp3'', ''.ogg'', ''.flac'', ''.aac'', ''.m4a'', ''.wma''],
                tmp_error = None, tmp_names = [''/tmp/tmpk3v9'', ''/tmp/tmpq7x2''],
                write_error = None, unlink_error = None\<rparr>"

definition disk_full :: os_env where
  "disk_full = quiet_os\<lparr>write_error := Some (OtherException ''No space left on device'')\<rparr>"

definition no_unlink :: os_env where
  "no_unlink = quiet_os\<lparr>unlink_error := Some (OtherException ''Permission denied'')\<rparr>"

definition empty_disk :: world where
  "empty_disk = \<lparr>files = Map.empty, created = [], engine_calls = []\<rparr>"

definition heard :: engine where
  "heard fs p = Inr ''habari yako''"

definition toy_loader :: loader where
  "toy_loader fs p sr to_mono dur =
     (case fs p of
        None \<Rightarrow> Inl (OtherException ''No such file'')
      | Some b \<Rightarrow> Inr (vec (map (\<lambda>c. real (of_char c)) (take (dur * sr) b)), sr))"

definition toy_processor :: processor where
  "toy_processor = \<lparr>featurize = (\<lambda>x sr. Inr [(''input_values'', x)]),
                     batch_decode = (\<lambda>ids. Inr [''  habari yako  ''])\<rparr>"

definition toy_model :: model where
  "toy_model = \<lparr>predict = (\<lambda>dev inputs. Inr (Dim []))\<rparr>"

definition toy_hub :: hub where
  "toy_hub = \<lparr>cuda_is_available = False,
               processor_from_pretrained = (\<lambda>name. Inr toy_processor),
               model_from_pretrained = (\<lambda>name dev. Inr toy_model)\<rparr>"

definition loaded_globals :: globals where
  "loaded_globals = \<lparr>asr_processor = Some toy_processor, asr_model = Some toy_model,
                      asr_device = Some ''cpu''\<rparr>"

definition long_stereo :: audio where
  "long_stereo = \<lparr>native_rate = 1, frames = replicate 31 [1, 3]\<rparr>"

definition short_stereo :: audio where
  "short_stereo = \<lparr>native_rate = 16000, frames = [[1, 3], [2, 4]]\<rparr>"

section \<open>Properties\<close>

subsection \<open>The example inputs, evaluated\<close>

lemma validate_sample_wav: "validate (set_iter E) sample_wav = None"
  by (simp add: validate_def sample_wav_def file_extension_def audio_extensions_def
      splitext_def rfind_def lower_def lower_char_def)

lemma stage_sample_wav:
  "stage quiet_os sample_wav empty_disk =
     (Inr ''/tmp/tmpk3v9.wav'',
      \<lparr>files = [''/tmp/tmpk3v9.wav'' \<mapsto> ''RIFF''], created = [''/tmp/tmpk3v9.wav''],
       engine_calls = []\<rparr>)"
  by (simp add: stage_def NamedTemporaryFile_def quiet_os_def sample_wav_def empty_disk_def)

lemma stage_sample_wav_no_unlink:
  "stage no_unlink sample_wav empty_disk =
     (Inr ''/tmp/tmpk3v9.wav'',
      \<lparr>files = [''/tmp/tmpk3v9.wav'' \<mapsto> ''RIFF''], created = [''/tmp/tmpk3v9.wav''],
       engine_calls = []\<rparr>)"
  by (simp add: stage_def NamedTemporaryFile_def no_unlink_def quiet_os_def sample_wav_def
      empty_disk_def)

lemma stage_sample_wav_disk_full:
  "stage disk_full sample_wav empty_disk =
     (Inl (OtherException ''No space left on device''),
      \<lparr>files = [''/tmp/tmpk3v9.wav'' \<mapsto> []], created = [''/tmp/tmpk3v9.wav''],
       engine_calls = []\<rparr>)"
  by (simp add: stage_def NamedTemporaryFile_def disk_full_def quiet_os_def sample_wav_def
      empty_disk_def)

subsection \<open>The handler, by the outcome of staging\<close>

lemma handler_staged:
  assumes "validate (set_iter E) r = None" and "stage E r w = (Inr p, w1)"
  shows "transcribe_audio eng E r w =
           (respond r (eng (files w1) p),
            cleanup E p (w1\<lparr>engine_calls := engine_calls w1 @ [p]\<rparr>))"
  using assms by (simp add: transcribe_audio_def Let_def)

lemma handler_not_staged:
  assumes "validate (set_iter E) r = None" and "stage E r w = (Inl e, w1)"
  shows "transcribe_audio eng E r w =
           (HTTPException 500 (''Failed to save uploaded file: '' @ str_exn e), w1)"
  using assms by (simp add: transcribe_audio_def HTTP_500_INTERNAL_SERVER_ERROR_def)

lemma validate_rejects:
  "validate iter r = Some out \<Longrightarrow> \<exists>d. out = HTTPException 400 d"
  by (auto simp: validate_def HTTP_400_BAD_REQUEST_def split: if_splits)

lemma stage_log: "engine_calls (snd (stage E r w)) = engine_calls w"
  by (simp add: stage_def NamedTemporaryFile_def split: option.splits sum.splits)

subsection \<open>Validation\<close>

text \<open>
  Claim C2. An upload whose declared content type is present and does not begin with
  \<^verbatim>\<open>audio/\<close>, and an upload that passes that check but whose lower-cased filename
  extension is not in the allow-list, is answered with status 400, and the world is
  left exactly as it was: no temporary file is created and nothing on disk is touched.
\<close>

theorem invalid_upload_rejected_before_staging:
  assumes "(\<exists>ct. content_type r = Some ct \<and> \<not> prefix ''audio/'' ct) \<or>
           (\<not> (\<exists>ct. content_type r = Some ct \<and> \<not> prefix ''audio/'' ct) \<and>
            file_extension r \<notin> audio_extensions)"
  shows "status_code (fst (transcribe_audio eng E r w)) = 400 \<and>
         snd (transcribe_audio eng E r w) = w"
  using assms
  by (auto simp: transcribe_audio_def validate_def HTTP_400_BAD_REQUEST_def)

theorem invalid_upload_rejected_before_staging_witness:
  "status_code (fst (transcribe_audio heard quiet_os notes_txt empty_disk)) = 400 \<and>
   snd (transcribe_audio heard quiet_os notes_txt empty_disk) = empty_disk \<and>
   file_extension notes_as_audio = ''.txt'' \<and>
   status_code (fst (transcribe_audio heard quiet_os notes_as_audio empty_disk)) = 400 \<and>
   snd (transcribe_audio heard quiet_os notes_as_audio empty_disk) = empty_disk"
proof -
  have a: "\<exists>ct. content_type notes_txt = Some ct \<and> \<not> prefix ''audio/'' ct"
    by (simp add: notes_txt_def)
  have b: "\<not> (\<exists>ct. content_type notes_as_audio = Some ct \<and> \<not> prefix ''audio/'' ct)"
    by (simp add: notes_as_audio_def)
  have c: "file_extension notes_as_audio = ''.txt''"
    by (simp add: notes_as_audio_def file_extension_def splitext_def rfind_def lower_def
        lower_char_def)
  have d: "file_extension notes_as_audio \<notin> audio_extensions"
    by (simp add: c audio_extensions_def)
  show ?thesis
    using invalid_upload_rejected_before_staging [of notes_txt heard quiet_os empty_disk]
      invalid_upload_rejected_before_staging [of notes_as_audio heard quiet_os empty_disk]
      a b c d
    by simp
qed

text \<open>
  Claim C9. With no declared content type and a filename that is missing or empty, the
  extension is the empty string, which is not in the allow-list: the upload is
  answered with status 400 (and nothing is staged).
\<close>

theorem missing_filename_rejected:
  assumes "content_type r = None" and "filename r = None \<or> filename r = Some []"
  shows "file_extension r = [] \<and> [] \<notin> audio_extensions \<and>
         status_code (fst (transcribe_audio eng E r w)) = 400 \<and>
         snd (transcribe_audio eng E r w) = w"
  using assms
  by (auto simp: transcribe_audio_def validate_def HTTP_400_BAD_REQUEST_def
      file_extension_def splitext_def rfind_def lower_def audio_extensions_def)

theorem missing_filename_rejected_witness:
  "content_type unnamed_upload = None \<and> filename unnamed_upload = None \<and>
   status_code (fst (transcribe_audio heard quiet_os unnamed_upload empty_disk)) = 400 \<and>
   snd (transcribe_audio heard quiet_os unnamed_upload empty_disk) = empty_disk"
proof -
  have a: "content_type unnamed_upload = None" and b: "filename unnamed_upload = None"
    by (simp_all add: unnamed_upload_def)
  show ?thesis
    using missing_filename_rejected [of unnamed_upload heard quiet_os empty_disk] a b
    by simp
qed

subsection \<open>Responses\<close>

text \<open>
  Claim C5. When the upload passes validation, staging succeeds and the engine returns
  a text, the handler returns (status 200) the object with exactly the keys
  \<^verbatim>\<open>status\<close> = \<^verbatim>\<open>"success"\<close>, \<^verbatim>\<open>transcription\<close> = the engine's text, \<^verbatim>\<open>language\<close> = the request's
  parameter or \<^verbatim>\<open>"sw"\<close> when it is omitted, \<^verbatim>\<open>model\<close> and \<^verbatim>\<open>model_version\<close> = the two fixed
  strings, and \<^verbatim>\<open>duration_seconds\<close> = null, in this order.
\<close>

theorem success_response_shape:
  assumes "validate (set_iter E) r = None" and "stage E r w = (Inr p, w1)"
    and "eng (files w1) p = Inr t"
  shows "fst (transcribe_audio eng E r w) =
           Returned [(''status'', JStr ''success''),
                     (''transcription'', JStr t),
                     (''language'', JStr (case language r of None \<Rightarrow> ''sw'' | Some l \<Rightarrow> l)),
                     (''model'', JStr ''RareElf/swahili-wav2vec2-asr''),
                     (''model_version'', JStr ''1.0.0''),
                     (''duration_seconds'', JNull)] \<and>
         status_code (fst (transcribe_audio eng E r w)) = 200"
  using assms by (simp add: handler_staged respond_def language_of_def)

theorem success_response_shape_witness:
  "validate (set_iter quiet_os) sample_wav = None \<and>
   fst (transcribe_audio heard quiet_os sample_wav empty_disk) =
     Returned [(''status'', JStr ''success''),
               (''transcription'', JStr ''habari yako''),
               (''language'', JStr ''sw''),
               (''model'', JStr ''RareElf/swahili-wav2vec2-asr''),
               (''model_version'', JStr ''1.0.0''),
               (''duration_seconds'', JNull)]"
proof -
  have l: "language sample_wav = None" by (simp add: sample_wav_def)
  show ?thesis
    using success_response_shape [OF validate_sample_wav stage_sample_wav,
        of heard "''habari yako''"] l
    by (simp add: heard_def validate_sample_wav)
qed

text \<open>
  Claim C3. After a successful staging: when the engine raises an \<^verbatim>\<open>ASRError\<close> with
  message \<open>m\<close>, the response is status 422 and its detail contains \<open>m\<close>; when it raises
  any other exception, the response is status 500 and its detail is the fixed text
  \<^verbatim>\<open>An unexpected error occurred during transcription\<close>, whatever the exception's own text
  is: nothing of the exception reaches the response.
\<close>

theorem engine_failures_map_to_422_and_500:
  assumes "validate (set_iter E) r = None" and "stage E r w = (Inr p, w1)"
  shows "(eng (files w1) p = Inl (ASRError m) \<longrightarrow>
            (\<exists>detail. fst (transcribe_audio eng E r w) = HTTPException 422 detail \<and>
                      sublist m detail)) \<and>
         (eng (files w1) p = Inl (OtherException m) \<longrightarrow>
            fst (transcribe_audio eng E r w) =
              HTTPException 500 ''An unexpected error occurred during transcription'')"
proof (intro conjI impI)
  assume "eng (files w1) p = Inl (ASRError m)"
  then have "fst (transcribe_audio eng E r w) =
               HTTPException 422 (''ASR processing error: '' @ m)"
    using assms by (simp add: handler_staged respond_def HTTP_422_UNPROCESSABLE_ENTITY_def)
  moreover have "sublist m (''ASR processing error: '' @ m)"
    by (rule sublist_append_leftI)
  ultimately show "\<exists>detail. fst (transcribe_audio eng E r w) = HTTPException 422 detail \<and>
                      sublist m detail"
    by (intro exI [of _ "''ASR processing error: '' @ m"] conjI)
next
  assume "eng (files w1) p = Inl (OtherException m)"
  then show "fst (transcribe_audio eng E r w) =
              HTTPException 500 ''An unexpected error occurred during transcription''"
    using assms by (simp add: handler_staged respond_def HTTP_500_INTERNAL_SERVER_ERROR_def)
qed

theorem engine_failures_map_to_422_and_500_witness:
  "fst (transcribe_audio (\<lambda>fs p. Inl (OtherException ''CUDA error at 0x7f3a'')) quiet_os
          sample_wav empty_disk) =
     HTTPException 500 ''An unexpected error occurred during transcription'' \<and>
   (\<exists>detail. fst (transcribe_audio (\<lambda>fs p. Inl (ASRError ''Transcription failed: bad header''))
                    quiet_os sample_wav empty_disk) = HTTPException 422 detail \<and>
             sublist ''Transcription failed: bad header'' detail)"
  using engine_failures_map_to_422_and_500 [OF validate_sample_wav stage_sample_wav,
      of "\<lambda>fs p. Inl (OtherException ''CUDA error at 0x7f3a'')" "''CUDA error at 0x7f3a''"]
    engine_failures_map_to_422_and_500 [OF validate_sample_wav stage_sample_wav,
      of "\<lambda>fs p. Inl (ASRError ''Transcription failed: bad header'')"
         "''Transcription failed: bad header''"]
  by simp

text \<open>
  Claim C8. When staging fails (creating the temporary file, reading the upload, or
  writing it raises), the response is status 500 with the detail
  \<^verbatim>\<open>Failed to save uploaded file: \<close> followed by the exception's text, and the engine
  is not called: the log of engine calls is unchanged.
\<close>

theorem staging_failure_500_no_engine_call:
  assumes "validate (set_iter E) r = None" and "fst (stage E r w) = Inl e"
  shows "fst (transcribe_audio eng E r w) =
           HTTPException 500 (''Failed to save uploaded file: '' @ str_exn e) \<and>
         engine_calls (snd (transcribe_audio eng E r w)) = engine_calls w"
proof -
  obtain w1 where st: "stage E r w = (Inl e, w1)"
    using assms(2) by (cases "stage E r w") simp
  have "engine_calls w1 = engine_calls w"
    using stage_log [of E r w] st by simp
  with assms(1) st show ?thesis
    by (simp add: handler_not_staged)
qed

theorem staging_failure_500_no_engine_call_witness:
  "write_error disk_full = Some (OtherException ''No space left on device'') \<and>
   fst (stage disk_full sample_wav empty_disk) = Inl (OtherException ''No space left on device'') \<and>
   fst (transcribe_audio heard disk_full sample_wav empty_disk) =
     HTTPException 500 ''Failed to save uploaded file: No space left on device'' \<and>
   engine_calls (snd (transcribe_audio heard disk_full sample_wav empty_disk)) = []"
proof -
  have a: "fst (stage disk_full sample_wav empty_disk) =
             Inl (OtherException ''No space left on device'')"
    by (simp add: stage_sample_wav_disk_full)
  have b: "write_error disk_full = Some (OtherException ''No space left on device'')"
    by (simp add: disk_full_def)
  show ?thesis
    using staging_failure_500_no_engine_call [OF validate_sample_wav a, of heard] a b
    by (simp add: empty_disk_def)
qed

subsection \<open>The engine before initialisation\<close>

lemma transcribe_not_loaded:
  assumes "asr_processor g = None \<or> asr_model g = None"
  shows "transcribe load g fs p = Inl (ASRError ''ASR model not loaded'')"
  using assms by (auto simp: transcribe_def split: option.splits)

lemma transcribe_loaded_error:
  assumes "asr_processor g \<noteq> None" and "asr_model g \<noteq> None"
    and "transcribe load g fs p = Inl e"
  shows "\<exists>m. e = ASRError (''Transcription failed: '' @ m)"
  using assms by (auto simp: transcribe_def split: option.splits sum.splits)

lemma transcribe_toy_loaded:
  "transcribe toy_loader loaded_globals [p \<mapsto> ''RIFF''] p = Inr ''habari yako''"
  by (simp add: transcribe_def transcribe_try_def preprocess_audio_def toy_loader_def
      loaded_globals_def toy_processor_def toy_model_def unsqueeze0_def vec_def
      strip_def isspace_def)

text \<open>
  Claim C4. While \<^verbatim>\<open>asr_processor\<close> or \<^verbatim>\<open>asr_model\<close> is still \<^verbatim>\<open>None\<close>, \<^verbatim>\<open>transcribe\<close> raises
  \<^verbatim>\<open>ASRError("ASR model not loaded")\<close>. The check stands outside the \<^verbatim>\<open>try\<close> block, so this
  error is distinct from every error of a transcription: an initialised engine never
  raises it (all its errors read \<^verbatim>\<open>Transcription failed: ...\<close>). The handler answers it,
  for a validated and staged upload, with status 422 and a detail that contains
  \<^verbatim>\<open>not loaded\<close>.
\<close>

theorem uninitialised_engine_not_loaded_error:
  assumes "asr_processor g = None \<or> asr_model g = None"
  shows "transcribe load g fs path = Inl (ASRError ''ASR model not loaded'') \<and>
         (asr_processor g' \<noteq> None \<and> asr_model g' \<noteq> None \<longrightarrow>
            transcribe load' g' fs' path' \<noteq> Inl (ASRError ''ASR model not loaded'')) \<and>
         (validate (set_iter E) r = None \<and> stage E r w = (Inr p, w1) \<longrightarrow>
            fst (transcribe_audio (transcribe load g) E r w) =
              HTTPException 422 ''ASR processing error: ASR model not loaded'' \<and>
            sublist ''not loaded'' ''ASR processing error: ASR model not loaded'')"
proof (intro conjI impI)
  show "transcribe load g fs path = Inl (ASRError ''ASR model not loaded'')"
    using assms by (rule transcribe_not_loaded)
next
  assume loaded: "asr_processor g' \<noteq> None \<and> asr_model g' \<noteq> None"
  show "transcribe load' g' fs' path' \<noteq> Inl (ASRError ''ASR model not loaded'')"
  proof
    assume "transcribe load' g' fs' path' = Inl (ASRError ''ASR model not loaded'')"
    with loaded transcribe_loaded_error [of g' load' fs' path' "ASRError ''ASR model not loaded''"]
    obtain m where "ASRError ''ASR model not loaded'' = ASRError (''Transcription failed: '' @ m)"
      by auto
    then show False by simp
  qed
next
  assume "validate (set_iter E) r = None \<and> stage E r w = (Inr p, w1)"
  then show "fst (transcribe_audio (transcribe load g) E r w) =
          HTTPException 422 ''ASR processing error: ASR model not loaded''"
    using transcribe_not_loaded [OF assms]
    by (simp add: handler_staged respond_def HTTP_422_UNPROCESSABLE_ENTITY_def)
next
  have "sublist ''not loaded'' (''ASR processing error: ASR model '' @ ''not loaded'' @ [])"
    by (rule sublist_appendI)
  then show "sublist ''not loaded'' ''ASR processing error: ASR model not loaded''"
    by simp
qed

theorem uninitialised_engine_not_loaded_error_witness:
  "(asr_processor initial_globals = None \<or> asr_model initial_globals = None) \<and>
   transcribe toy_loader initial_globals [''/tmp/a.wav'' \<mapsto> ''RIFF''] ''/tmp/a.wav'' =
     Inl (ASRError ''ASR model not loaded'') \<and>
   transcribe toy_loader loaded_globals [''/tmp/a.wav'' \<mapsto> ''RIFF''] ''/tmp/a.wav'' \<noteq>
     Inl (ASRError ''ASR model not loaded'') \<and>
   fst (transcribe_audio (transcribe toy_loader initial_globals) quiet_os sample_wav empty_disk) =
     HTTPException 422 ''ASR processing error: ASR model not loaded''"
proof -
  have a: "asr_processor initial_globals = None \<or> asr_model initial_globals = None"
    by (simp add: initial_globals_def)
  have b: "asr_processor loaded_globals \<noteq> None \<and> asr_model loaded_globals \<noteq> None"
    by (simp add: loaded_globals_def)
  show ?thesis
    using uninitialised_engine_not_loaded_error [OF a,
        of toy_loader "[''/tmp/a.wav'' \<mapsto> ''RIFF'']" "''/tmp/a.wav''" loaded_globals
           toy_loader "[''/tmp/a.wav'' \<mapsto> ''RIFF'']" "''/tmp/a.wav''"
           quiet_os sample_wav empty_disk]
      a b validate_sample_wav [of quiet_os] stage_sample_wav
    by simp
qed

subsection \<open>The transcript is stripped\<close>

lemma strip_splits:
  "rev (dropWhile P (rev xs)) @ rev (takeWhile P (rev xs)) = xs"
proof -
  have "rev (takeWhile P (rev xs) @ dropWhile P (rev xs)) = xs"
    by simp
  then show ?thesis by (simp only: rev_append)
qed

lemma trimmed_strip: "trimmed (strip s)"
proof (cases "strip s")
  case Nil
  then show ?thesis by (simp add: trimmed_def)
next
  case (Cons c cs)
  define t where "t = dropWhile isspace s"
  define u where "u = dropWhile isspace (rev t)"
  have su: "strip s = rev u" by (simp add: strip_def t_def u_def)
  have une: "u \<noteq> []" using Cons su by auto
  have "\<not> isspace (hd u)" using une unfolding u_def by (rule hd_dropWhile)
  then have l: "\<not> isspace (last (strip s))" using une su by (simp add: last_rev)
  have "rev u @ rev (takeWhile isspace (rev t)) = t"
    unfolding u_def by (rule strip_splits)
  then have tt: "t = (c # cs) @ rev (takeWhile isspace (rev t))" using Cons su by simp
  then have tne: "t \<noteq> []" by auto
  have "hd t = c" using tt by (metis append_Cons list.sel(1))
  moreover have "\<not> isspace (hd t)" using tne unfolding t_def by (rule hd_dropWhile)
  ultimately have "\<not> isspace c" by simp
  with l Cons show ?thesis by (simp add: trimmed_def)
qed

lemma transcribe_try_trimmed:
  "transcribe_try load P M dev fs p = Inr t \<Longrightarrow> trimmed t"
  by (auto simp: transcribe_try_def trimmed_strip split: sum.splits list.splits)

lemma transcribe_trimmed:
  assumes "transcribe load g fs path = Inr t"
  shows "trimmed t"
  using assms
  by (auto simp: transcribe_def transcribe_try_trimmed split: option.splits sum.splits)

lemma respond_returned:
  assumes "respond r res = Returned obj"
  shows "\<exists>t. res = Inr t \<and> map_of obj ''transcription'' = Some (JStr t)"
proof (cases res)
  case (Inl e)
  with assms show ?thesis by (cases e) (simp_all add: respond_def)
next
  case (Inr t)
  with assms have "map_of obj ''transcription'' = Some (JStr t)"
    by (auto simp: respond_def)
  with Inr show ?thesis by simp
qed

lemma handler_returned:
  assumes "fst (transcribe_audio eng E r w) = Returned obj"
  shows "\<exists>fs p t. eng fs p = Inr t \<and> map_of obj ''transcription'' = Some (JStr t)"
proof (cases "validate (set_iter E) r")
  case (Some out)
  then obtain d where "out = HTTPException 400 d" using validate_rejects by blast
  with Some assms show ?thesis by (simp add: transcribe_audio_def)
next
  case None
  obtain res w1 where st: "stage E r w = (res, w1)" by (cases "stage E r w")
  show ?thesis
  proof (cases res)
    case (Inl e)
    with None st assms show ?thesis by (simp add: handler_not_staged)
  next
    case (Inr p)
    with None st assms have "respond r (eng (files w1) p) = Returned obj"
      by (simp add: handler_staged)
    then obtain t where "eng (files w1) p = Inr t" "map_of obj ''transcription'' = Some (JStr t)"
      using respond_returned by blast
    then show ?thesis by (intro exI [of _ "files w1"] exI [of _ p] exI [of _ t]) simp
  qed
qed

text \<open>
  Claim C10. Whenever \<^verbatim>\<open>transcribe\<close> returns, the text it returns has no leading and no
  trailing whitespace; hence, with \<^verbatim>\<open>transcribe\<close> as the engine, the \<^verbatim>\<open>transcription\<close>
  field of every returned (200) response is such a text.
\<close>

theorem transcript_is_stripped:
  "(transcribe load g fs path = Inr t \<longrightarrow> trimmed t) \<and>
   (fst (transcribe_audio (transcribe load g) E r w) = Returned obj \<longrightarrow>
      (\<exists>t'. map_of obj ''transcription'' = Some (JStr t') \<and> trimmed t'))"
proof (intro conjI impI)
  assume "transcribe load g fs path = Inr t"
  then show "trimmed t" by (rule transcribe_trimmed)
next
  assume "fst (transcribe_audio (transcribe load g) E r w) = Returned obj"
  then obtain fs' p' t' where "transcribe load g fs' p' = Inr t'"
    and m: "map_of obj ''transcription'' = Some (JStr t')"
    using handler_returned by blast
  then have "trimmed t'" using transcribe_trimmed by simp
  with m show "\<exists>t'. map_of obj ''transcription'' = Some (JStr t') \<and> trimmed t'"
    by (intro exI [of _ t']) simp
qed

theorem transcript_is_stripped_witness:
  "batch_decode toy_processor (Dim []) = Inr [''  habari yako  ''] \<and>
   transcribe toy_loader loaded_globals [''/tmp/a.wav'' \<mapsto> ''RIFF''] ''/tmp/a.wav'' =
     Inr ''habari yako'' \<and>
   trimmed ''habari yako'' \<and>
   fst (transcribe_audio (transcribe toy_loader loaded_globals) quiet_os sample_wav empty_disk) =
     Returned [(''status'', JStr ''success''),
               (''transcription'', JStr ''habari yako''),
               (''language'', JStr ''sw''),
               (''model'', JStr ''RareElf/swahili-wav2vec2-asr''),
               (''model_version'', JStr ''1.0.0''),
               (''duration_seconds'', JNull)]"
proof -
  have a: "transcribe toy_loader loaded_globals [''/tmp/a.wav'' \<mapsto> ''RIFF''] ''/tmp/a.wav'' =
             Inr ''habari yako''"
    by (rule transcribe_toy_loaded)
  have b: "fst (transcribe_audio (transcribe toy_loader loaded_globals) quiet_os sample_wav
                  empty_disk) =
     Returned [(''status'', JStr ''success''),
               (''transcription'', JStr ''habari yako''),
               (''language'', JStr ''sw''),
               (''model'', JStr ''RareElf/swahili-wav2vec2-asr''),
               (''model_version'', JStr ''1.0.0''),
               (''duration_seconds'', JNull)]"
  proof -
    have l: "language sample_wav = None" by (simp add: sample_wav_def)
    show ?thesis
      unfolding handler_staged [OF validate_sample_wav stage_sample_wav]
      by (simp add: transcribe_toy_loaded respond_def language_of_def l)
  qed
  have c: "batch_decode toy_processor (Dim []) = Inr [''  habari yako  '']"
    by (simp add: toy_processor_def)
  show ?thesis
    using transcript_is_stripped [of toy_loader loaded_globals
        "[''/tmp/a.wav'' \<mapsto> ''RIFF'']" "''/tmp/a.wav''" "''habari yako''"
        quiet_os sample_wav empty_disk
        "[(''status'', JStr ''success''),
               (''transcription'', JStr ''habari yako''),
               (''language'', JStr ''sw''),
               (''model'', JStr ''RareElf/swahili-wav2vec2-asr''),
               (''model_version'', JStr ''1.0.0''),
               (''duration_seconds'', JNull)]"] a b c
    by simp
qed

subsection \<open>\<^verbatim>\<open>GET /health\<close>\<close>

lemma health_check_eq:
  "health_check g =
     Returned [(''status'', JStr ''healthy''),
               (''model_loaded'', JBool (asr_model g \<noteq> None)),
               (''model_status'', JStr (if asr_model g \<noteq> None then ''loaded'' else ''not loaded'')),
               (''device'', JStr (case asr_device g of None \<Rightarrow> ''unknown''
                                   | Some d \<Rightarrow> if d \<noteq> [] then d else ''unknown'')),
               (''max_audio_length_seconds'', JInt 30),
               (''sample_rate'', JInt 16000)]"
  unfolding health_check_def health_except_def health_try_def Let_def
    MAX_INPUT_LENGTH_def SAMPLE_RATE_def
  by simp

lemma load_model_ok:
  assumes "load_model H name g = (None, g')"
  shows "asr_model g' \<noteq> None \<and> asr_processor g' \<noteq> None \<and>
         asr_device g' = Some (if cuda_is_available H then ''cuda'' else ''cpu'')"
  using assms unfolding load_model_def Let_def
  by (auto split: sum.splits)

lemma health_loaded:
  assumes "load_model H name g = (None, g')"
  shows "\<exists>d. d \<noteq> ''unknown'' \<and> health_check g' =
     Returned [(''status'', JStr ''healthy''),
               (''model_loaded'', JBool True),
               (''model_status'', JStr ''loaded''),
               (''device'', JStr d),
               (''max_audio_length_seconds'', JInt 30),
               (''sample_rate'', JInt 16000)]"
proof (cases "cuda_is_available H")
  case True
  with load_model_ok [OF assms] have "asr_model g' \<noteq> None" "asr_device g' = Some ''cuda''"
    by simp_all
  then have "health_check g' =
     Returned [(''status'', JStr ''healthy''),
               (''model_loaded'', JBool True),
               (''model_status'', JStr ''loaded''),
               (''device'', JStr ''cuda''),
               (''max_audio_length_seconds'', JInt 30),
               (''sample_rate'', JInt 16000)]"
    by (simp add: health_check_eq)
  then show ?thesis by (intro exI [of _ "''cuda''"]) simp
next
  case False
  with load_model_ok [OF assms] have "asr_model g' \<noteq> None" "asr_device g' = Some ''cpu''"
    by simp_all
  then have "health_check g' =
     Returned [(''status'', JStr ''healthy''),
               (''model_loaded'', JBool True),
               (''model_status'', JStr ''loaded''),
               (''device'', JStr ''cpu''),
               (''max_audio_length_seconds'', JInt 30),
               (''sample_rate'', JInt 16000)]"
    by (simp add: health_check_eq)
  then show ?thesis by (intro exI [of _ "''cpu''"]) simp
qed

lemma health_initial:
  "health_check initial_globals =
     Returned [(''status'', JStr ''healthy''),
               (''model_loaded'', JBool False),
               (''model_status'', JStr ''not loaded''),
               (''device'', JStr ''unknown''),
               (''max_audio_length_seconds'', JInt 30),
               (''sample_rate'', JInt 16000)]"
  by (simp add: health_check_eq initial_globals_def)

lemma load_model_toy:
  "load_model toy_hub ''RareElf/swahili-wav2vec2-asr'' initial_globals = (None, loaded_globals)"
  by (simp add: load_model_def toy_hub_def initial_globals_def loaded_globals_def)

text \<open>
  Claim C7. \<^verbatim>\<open>health_check\<close> always returns, never raises: for all globals the result is
  the object with the keys \<^verbatim>\<open>status\<close>, \<^verbatim>\<open>model_loaded\<close>, \<^verbatim>\<open>model_status\<close>, \<^verbatim>\<open>device\<close>,
  \<^verbatim>\<open>max_audio_length_seconds\<close> = 30 and \<^verbatim>\<open>sample_rate\<close> = 16000. Before \<^verbatim>\<open>load_model\<close> has run
  it reports \<^verbatim>\<open>model_loaded\<close> false and the device \<^verbatim>\<open>unknown\<close>; after a \<^verbatim>\<open>load_model\<close> that
  did not raise it reports \<^verbatim>\<open>model_loaded\<close> true and a device other than \<^verbatim>\<open>unknown\<close>. The
  \<^verbatim>\<open>except\<close> clause turns an exception of the body into the object with \<^verbatim>\<open>status\<close> =
  \<^verbatim>\<open>unhealthy\<close> and \<^verbatim>\<open>error\<close> = the exception's text.
\<close>

theorem health_check_never_raises:
  "(\<exists>loaded status device. health_check g =
     Returned [(''status'', JStr ''healthy''),
               (''model_loaded'', JBool loaded),
               (''model_status'', JStr status),
               (''device'', JStr device),
               (''max_audio_length_seconds'', JInt 30),
               (''sample_rate'', JInt 16000)]) \<and>
   health_check initial_globals =
     Returned [(''status'', JStr ''healthy''),
               (''model_loaded'', JBool False),
               (''model_status'', JStr ''not loaded''),
               (''device'', JStr ''unknown''),
               (''max_audio_length_seconds'', JInt 30),
               (''sample_rate'', JInt 16000)] \<and>
   (load_model H name g0 = (None, g1) \<longrightarrow>
      (\<exists>device. device \<noteq> ''unknown'' \<and> health_check g1 =
         Returned [(''status'', JStr ''healthy''),
                   (''model_loaded'', JBool True),
                   (''model_status'', JStr ''loaded''),
                   (''device'', JStr device),
                   (''max_audio_length_seconds'', JInt 30),
                   (''sample_rate'', JInt 16000)])) \<and>
   health_except (Inl e) =
     Returned [(''status'', JStr ''unhealthy''), (''error'', JStr (str_exn e))]"
proof (intro conjI impI)
  show "\<exists>loaded status device. health_check g =
     Returned [(''status'', JStr ''healthy''),
               (''model_loaded'', JBool loaded),
               (''model_status'', JStr status),
               (''device'', JStr device),
               (''max_audio_length_seconds'', JInt 30),
               (''sample_rate'', JInt 16000)]"
    by (intro exI) (rule health_check_eq)
  show "health_check initial_globals =
     Returned [(''status'', JStr ''healthy''),
               (''model_loaded'', JBool False),
               (''model_status'', JStr ''not loaded''),
               (''device'', JStr ''unknown''),
               (''max_audio_length_seconds'', JInt 30),
               (''sample_rate'', JInt 16000)]"
    by (rule health_initial)
  show "health_except (Inl e) =
     Returned [(''status'', JStr ''unhealthy''), (''error'', JStr (str_exn e))]"
    by (simp add: health_except_def)
next
  assume "load_model H name g0 = (None, g1)"
  then show "\<exists>device. device \<noteq> ''unknown'' \<and> health_check g1 =
         Returned [(''status'', JStr ''healthy''),
                   (''model_loaded'', JBool True),
                   (''model_status'', JStr ''loaded''),
                   (''device'', JStr device),
                   (''max_audio_length_seconds'', JInt 30),
                   (''sample_rate'', JInt 16000)]"
    by (rule health_loaded)
qed

theorem health_check_never_raises_witness:
  "load_model toy_hub ''RareElf/swahili-wav2vec2-asr'' initial_globals = (None, loaded_globals) \<and>
   (\<exists>device. device \<noteq> ''unknown'' \<and> health_check loaded_globals =
         Returned [(''status'', JStr ''healthy''),
                   (''model_loaded'', JBool True),
                   (''model_status'', JStr ''loaded''),
                   (''device'', JStr device),
                   (''max_audio_length_seconds'', JInt 30),
                   (''sample_rate'', JInt 16000)])"
  using health_check_never_raises [of initial_globals toy_hub
      "''RareElf/swahili-wav2vec2-asr''" initial_globals loaded_globals "OtherException ''boom''"] load_model_toy
  by simp

subsection \<open>The temporary file\<close>

lemma stage_ok:
  assumes "stage E r w = (Inr p, w1)"
  shows "files w p = None \<and> created w1 = created w @ [p] \<and>
         files w1 p \<noteq> None \<and> (\<forall>q. q \<noteq> p \<longrightarrow> files w1 q = files w q)"
proof -
  from assms obtain contents where
    f: "find (\<lambda>p. files w p = None) (map (\<lambda>n. n @ ''.wav'') (tmp_names E)) = Some p"
    and w1: "files w1 = (files w)(p \<mapsto> contents)" "created w1 = created w @ [p]"
    by (auto simp: stage_def NamedTemporaryFile_def split: option.splits sum.splits)
  from f have "files w p = None" by (auto simp: find_Some_iff)
  with w1 show ?thesis by simp
qed

lemma cleanup_keeps:
  "created (cleanup E p w) = created w"
  "q \<noteq> p \<Longrightarrow> files (cleanup E p w) q = files w q"
  "unlink_error E = None \<Longrightarrow> files (cleanup E p w) p = None"
  by (simp_all add: cleanup_def split: option.splits)

lemma cleanup_failed_unlink:
  "unlink_error E \<noteq> None \<Longrightarrow> files (cleanup E p w) p = files w p"
  by (auto simp: cleanup_def split: option.splits)

lemma stage_ignores_unlink_error: "stage (E\<lparr>unlink_error := x\<rparr>) r w = stage E r w"
proof -
  have "NamedTemporaryFile (E\<lparr>unlink_error := x\<rparr>) w = NamedTemporaryFile E w"
    by (simp add: NamedTemporaryFile_def split: option.splits)
  then show ?thesis
    by (simp add: stage_def split: prod.splits sum.splits option.splits)
qed

text \<open>
  Claim C1, as the code has it. For every upload that passes validation and is staged,
  exactly one temporary file is created, under a name no file had; whatever the engine
  does (success, 422 or 500), the request leaves every other file as it was, and the
  temporary file no longer exists afterwards provided \<^verbatim>\<open>os.unlink\<close> does not fail. A
  failing \<^verbatim>\<open>os.unlink\<close> is only logged: it leaves the file in place and the response as
  it would have been.
\<close>

theorem staged_file_removed_unless_unlink_fails:
  assumes "validate (set_iter E) r = None" and "stage E r w = (Inr p, w1)"
  shows "files w p = None \<and>
         created (snd (transcribe_audio eng E r w)) = created w @ [p] \<and>
         (unlink_error E = None \<longrightarrow> files (snd (transcribe_audio eng E r w)) p = None) \<and>
         (unlink_error E \<noteq> None \<longrightarrow> files (snd (transcribe_audio eng E r w)) p \<noteq> None) \<and>
         (\<forall>q. q \<noteq> p \<longrightarrow> files (snd (transcribe_audio eng E r w)) q = files w q) \<and>
         fst (transcribe_audio eng E r w) =
           fst (transcribe_audio eng (E\<lparr>unlink_error := None\<rparr>) r w)"
proof -
  let ?w2 = "w1\<lparr>engine_calls := engine_calls w1 @ [p]\<rparr>"
  have h: "transcribe_audio eng E r w = (respond r (eng (files w1) p), cleanup E p ?w2)"
    using assms by (rule handler_staged)
  have v': "validate (set_iter (E\<lparr>unlink_error := None\<rparr>)) r = None"
    using assms(1) by simp
  have s': "stage (E\<lparr>unlink_error := None\<rparr>) r w = (Inr p, w1)"
    using assms(2) by (simp add: stage_ignores_unlink_error)
  have h': "fst (transcribe_audio eng (E\<lparr>unlink_error := None\<rparr>) r w) =
              respond r (eng (files w1) p)"
    by (simp add: handler_staged [OF v' s'])
  note ok = stage_ok [OF assms(2)]
  have a: "files w p = None" using ok by simp
  have b: "created (snd (transcribe_audio eng E r w)) = created w @ [p]"
    using ok by (simp add: h cleanup_keeps)
  have c: "unlink_error E = None \<longrightarrow> files (snd (transcribe_audio eng E r w)) p = None"
    by (simp add: h cleanup_keeps)
  have c': "unlink_error E \<noteq> None \<longrightarrow>
              files (snd (transcribe_audio eng E r w)) p \<noteq> None"
    using ok by (simp add: h cleanup_failed_unlink)
  have d: "\<forall>q. q \<noteq> p \<longrightarrow> files (snd (transcribe_audio eng E r w)) q = files w q"
    using ok by (simp add: h cleanup_keeps)
  have e: "fst (transcribe_audio eng E r w) =
             fst (transcribe_audio eng (E\<lparr>unlink_error := None\<rparr>) r w)"
    by (simp add: h h')
  from a b c c' d e show ?thesis by (intro conjI)
qed

theorem staged_file_removed_unless_unlink_fails_witness:
  "validate (set_iter quiet_os) sample_wav = None \<and>
   unlink_error quiet_os = None \<and>
   created (snd (transcribe_audio heard quiet_os sample_wav empty_disk)) =
     [''/tmp/tmpk3v9.wav''] \<and>
   files (snd (transcribe_audio heard quiet_os sample_wav empty_disk)) ''/tmp/tmpk3v9.wav'' =
     None"
proof -
  have u: "unlink_error quiet_os = None" by (simp add: quiet_os_def)
  have c: "created empty_disk = []" by (simp add: empty_disk_def)
  show ?thesis
    using staged_file_removed_unless_unlink_fails [OF validate_sample_wav stage_sample_wav,
        of heard] u c validate_sample_wav [of quiet_os]
    by simp
qed

text \<open>
  Claim C1 as stated fails: with an \<^verbatim>\<open>os.unlink\<close> that raises, the upload
  \<^verbatim>\<open>sample.wav\<close> passes validation, one temporary file is created, the response is the
  200 one, and the file is still on disk, holding the upload, when the request is over.
\<close>

theorem temp_file_survives_failed_unlink:
  "validate (set_iter no_unlink) sample_wav = None \<and>
   created (snd (transcribe_audio heard no_unlink sample_wav empty_disk)) =
     [''/tmp/tmpk3v9.wav''] \<and>
   status_code (fst (transcribe_audio heard no_unlink sample_wav empty_disk)) = 200 \<and>
   files (snd (transcribe_audio heard no_unlink sample_wav empty_disk)) ''/tmp/tmpk3v9.wav'' =
     Some ''RIFF''"
proof -
  have u: "unlink_error no_unlink = Some (OtherException ''Permission denied'')"
    by (simp add: no_unlink_def)
  show ?thesis
    unfolding handler_staged [OF validate_sample_wav stage_sample_wav_no_unlink]
    by (simp add: validate_sample_wav cleanup_def u respond_def heard_def)
qed

text \<open>
  The staging path has no cleanup at all: when the write fails after the file was
  created, the response is 500 and the (empty) file stays on disk.
\<close>

lemma staging_failure_keeps_file:
  "fst (transcribe_audio heard disk_full sample_wav empty_disk) =
     HTTPException 500 ''Failed to save uploaded file: No space left on device'' \<and>
   files (snd (transcribe_audio heard disk_full sample_wav empty_disk)) ''/tmp/tmpk3v9.wav'' =
     Some []"
  unfolding handler_not_staged [OF validate_sample_wav stage_sample_wav_disk_full]
  by simp

subsection \<open>Preprocessing\<close>

lemma length_fix_length: "length (fix_length n y) = n"
  by (simp add: fix_length_def)

lemma length_librosa_to_mono: "length (librosa_to_mono y) = length y"
  by (simp add: librosa_to_mono_def)

lemma length_librosa_resample:
  "length (librosa_resample interp orig_sr target_sr y) =
     (if orig_sr = target_sr then length y
      else (length y * target_sr + orig_sr - 1) div orig_sr)"
  by (simp add: librosa_resample_def length_fix_length)

lemma resampled_length_bound:
  fixes k N :: nat
  assumes "k \<le> 30 * N"
  shows "(k * 16000 + N - 1) div N \<le> 480000"
proof (cases "N = 0")
  case True
  then show ?thesis by simp
next
  case False
  then have "k * 16000 + N - 1 \<le> 480000 * N + (N - 1)"
    using assms by simp
  then have "(k * 16000 + N - 1) div N \<le> (480000 * N + (N - 1)) div N"
    by (rule div_le_mono)
  also have "(480000 * N + (N - 1)) div N = 480000 + (N - 1) div N"
    using False by (intro div_mult_self3) simp
  also have "(N - 1) div N = 0"
    using False by simp
  finally show ?thesis by simp
qed

lemma resampled_length_full:
  fixes N :: nat
  assumes "0 < N"
  shows "(30 * N * 16000 + N - 1) div N = 480000"
proof -
  have "30 * N * 16000 + N - 1 = 480000 * N + (N - 1)"
    using assms by simp
  then have "(30 * N * 16000 + N - 1) div N = (480000 * N + (N - 1)) div N"
    by (rule arg_cong)
  also have "(480000 * N + (N - 1)) div N = 480000 + (N - 1) div N"
    using assms by (intro div_mult_self3) simp
  also have "(N - 1) div N = 0"
    using assms by simp
  finally show ?thesis by simp
qed

lemma librosa_load_mono:
  assumes "fs path = Some bytes" and "decode bytes = Inr a"
  shows "librosa_load decode interp fs path sr True duration =
           Inr (vec (librosa_resample interp (native_rate a) sr
                  (librosa_to_mono (take (duration * native_rate a) (frames a)))), sr)"
  using assms by (simp add: librosa_load_def Let_def)

text \<open>
  Claim C6. With \<^verbatim>\<open>librosa.load\<close> as the loader, for every path that holds a decodable
  audio file \<^verbatim>\<open>preprocess_audio\<close> returns a tensor of one row, \<open>Dim [vec xs]\<close>: a single
  channel, whatever the number of channels of the file. Its samples \<open>xs\<close> are the
  first 30 seconds of the file (the first \<open>30 * native_rate\<close> frames), averaged over the
  channels and resampled from the native rate to 16000 Hz, the rate the loader returns.
  So \<open>xs\<close> never holds more than \<open>30 * 16000\<close> samples, it holds exactly that many (30
  seconds at 16 kHz) when the file is 30 seconds long or longer, and a file of at most
  30 seconds is not cut.
\<close>

theorem preprocess_truncates_resamples_downmixes:
  assumes "fs path = Some bytes" and "decode bytes = Inr a"
  shows "\<exists>xs. preprocess_audio (librosa_load decode interp) fs path = Inr (Dim [vec xs]) \<and>
              librosa_load decode interp fs path 16000 True 30 = Inr (vec xs, 16000) \<and>
              xs = librosa_resample interp (native_rate a) 16000
                     (librosa_to_mono (take (30 * native_rate a) (frames a))) \<and>
              length xs \<le> 30 * 16000 \<and>
              (0 < native_rate a \<and> 30 * native_rate a \<le> length (frames a) \<longrightarrow>
                 length xs = 30 * 16000) \<and>
              (length (frames a) \<le> 30 * native_rate a \<longrightarrow>
                 xs = librosa_resample interp (native_rate a) 16000
                        (librosa_to_mono (frames a))) \<and>
              (native_rate a = 16000 \<longrightarrow>
                 xs = librosa_to_mono (take (30 * 16000) (frames a)))"
proof -
  define N where "N = native_rate a"
  define y where "y = take (30 * N) (frames a)"
  define xs where "xs = librosa_resample interp N 16000 (librosa_to_mono y)"
  have ly: "length y = min (length (frames a)) (30 * N)"
    by (simp add: y_def)
  have lx: "length xs = (if N = 16000 then length y else (length y * 16000 + N - 1) div N)"
    by (simp add: xs_def length_librosa_resample length_librosa_to_mono)
  have load: "librosa_load decode interp fs path 16000 True 30 = Inr (vec xs, 16000)"
    using librosa_load_mono [where fs = fs and path = path and decode = decode
        and interp = interp and sr = 16000 and duration = 30, OF assms]
    by (simp add: xs_def y_def N_def)
  have pre: "preprocess_audio (librosa_load decode interp) fs path = Inr (Dim [vec xs])"
    using load
    by (simp add: preprocess_audio_def SAMPLE_RATE_def MAX_INPUT_LENGTH_def unsqueeze0_def)
  have eq: "xs = librosa_resample interp (native_rate a) 16000
                   (librosa_to_mono (take (30 * native_rate a) (frames a)))"
    by (simp add: xs_def y_def N_def)
  have bound: "length xs \<le> 30 * 16000"
  proof (cases "N = 16000")
    case True
    then show ?thesis using lx ly by simp
  next
    case False
    have "length y \<le> 30 * N" using ly by simp
    then have "(length y * 16000 + N - 1) div N \<le> 480000"
      by (rule resampled_length_bound)
    then show ?thesis using lx False by simp
  qed
  have full: "length xs = 30 * 16000" if "0 < N" and "30 * N \<le> length (frames a)"
  proof (cases "N = 16000")
    case True
    then show ?thesis using lx ly that by simp
  next
    case False
    have "length y = 30 * N" using ly that by simp
    then have "length xs = (30 * N * 16000 + N - 1) div N" using lx False by simp
    then show ?thesis using resampled_length_full [OF that(1)] by simp
  qed
  have whole: "xs = librosa_resample interp (native_rate a) 16000 (librosa_to_mono (frames a))"
    if "length (frames a) \<le> 30 * native_rate a"
    using that by (simp add: eq)
  have same: "xs = librosa_to_mono (take (30 * 16000) (frames a))" if "native_rate a = 16000"
    using that by (simp add: eq librosa_resample_def)
  from pre load eq bound full whole same show ?thesis
    unfolding N_def by (intro exI [of _ xs] conjI impI) simp_all
qed

theorem preprocess_truncates_resamples_downmixes_witness:
  "30 * native_rate long_stereo \<le> length (frames long_stereo) \<and>
   (\<exists>xs. preprocess_audio (librosa_load (\<lambda>bytes. Inr long_stereo) (\<lambda>orig_sr target_sr y. y))
            [''/tmp/a.wav'' \<mapsto> ''RIFF''] ''/tmp/a.wav'' = Inr (Dim [vec xs]) \<and>
         length xs = 30 * 16000) \<and>
   preprocess_audio (librosa_load (\<lambda>bytes. Inr short_stereo) (\<lambda>orig_sr target_sr y. y))
     [''/tmp/a.wav'' \<mapsto> ''RIFF''] ''/tmp/a.wav'' = Inr (Dim [vec [2, 3]])"
proof -
  have f: "[''/tmp/a.wav'' \<mapsto> ''RIFF''] ''/tmp/a.wav'' = Some ''RIFF''" by simp
  have n: "0 < native_rate long_stereo" by (simp add: long_stereo_def)
  have l: "30 * native_rate long_stereo \<le> length (frames long_stereo)"
    by (simp add: long_stereo_def)
  obtain xs where
    "preprocess_audio (librosa_load (\<lambda>bytes. Inr long_stereo) (\<lambda>orig_sr target_sr y. y))
       [''/tmp/a.wav'' \<mapsto> ''RIFF''] ''/tmp/a.wav'' = Inr (Dim [vec xs])"
    and "0 < native_rate long_stereo \<and> 30 * native_rate long_stereo \<le> length (frames long_stereo)
           \<longrightarrow> length xs = 30 * 16000"
    using preprocess_truncates_resamples_downmixes [of "[''/tmp/a.wav'' \<mapsto> ''RIFF'']"
        "''/tmp/a.wav''" "''RIFF''" "\<lambda>bytes. Inr long_stereo" long_stereo
        "\<lambda>orig_sr target_sr y. y", OF f refl]
    by auto
  with n l have long:
    "\<exists>xs. preprocess_audio (librosa_load (\<lambda>bytes. Inr long_stereo) (\<lambda>orig_sr target_sr y. y))
            [''/tmp/a.wav'' \<mapsto> ''RIFF''] ''/tmp/a.wav'' = Inr (Dim [vec xs]) \<and>
          length xs = 30 * 16000"
    by (intro exI [of _ xs]) simp
  have r: "native_rate short_stereo = 16000" by (simp add: short_stereo_def)
  have m: "librosa_to_mono (take (30 * 16000) (frames short_stereo)) = [2, 3]"
    by (simp add: short_stereo_def librosa_to_mono_def)
  obtain zs where
    "preprocess_audio (librosa_load (\<lambda>bytes. Inr short_stereo) (\<lambda>orig_sr target_sr y. y))
       [''/tmp/a.wav'' \<mapsto> ''RIFF''] ''/tmp/a.wav'' = Inr (Dim [vec zs])"
    and "native_rate short_stereo = 16000 \<longrightarrow>
           zs = librosa_to_mono (take (30 * 16000) (frames short_stereo))"
    using preprocess_truncates_resamples_downmixes [of "[''/tmp/a.wav'' \<mapsto> ''RIFF'']"
        "''/tmp/a.wav''" "''RIFF''" "\<lambda>bytes. Inr short_stereo" short_stereo
        "\<lambda>orig_sr target_sr y. y", OF f refl]
    by auto
  with r m have short:
    "preprocess_audio (librosa_load (\<lambda>bytes. Inr short_stereo) (\<lambda>orig_sr target_sr y. y))
       [''/tmp/a.wav'' \<mapsto> ''RIFF''] ''/tmp/a.wav'' = Inr (Dim [vec [2, 3]])"
    by simp
  from l long short show ?thesis by (intro conjI)
qed

text \<open>
  What goes to the model is the preprocessed waveform: when the \<^verbatim>\<open>try\<close> block of
  \<^verbatim>\<open>transcribe\<close> succeeds, the processor was applied to the loader's result for 16 kHz,
  mono, 30 seconds (batch axis added and squeezed away again), and was told the
  sampling rate 16000.
\<close>

lemma transcribe_try_feeds_preprocessed:
  assumes "transcribe_try load P M dev fs path = Inr text"
  shows "\<exists>y rate inputs. load fs path 16000 True 30 = Inr (y, rate) \<and>
           featurize P (squeeze (Dim [y])) 16000 = Inr inputs"
proof (cases "load fs path 16000 True 30")
  case (Inl e)
  with assms show ?thesis
    by (simp add: transcribe_try_def preprocess_audio_def SAMPLE_RATE_def MAX_INPUT_LENGTH_def)
next
  case (Inr res)
  obtain y rate where "res = (y, rate)" by (cases res)
  with Inr have l: "load fs path 16000 True 30 = Inr (y, rate)" by simp
  then have p: "preprocess_audio load fs path = Inr (Dim [y])"
    by (simp add: preprocess_audio_def SAMPLE_RATE_def MAX_INPUT_LENGTH_def unsqueeze0_def)
  show ?thesis
  proof (cases "featurize P (squeeze (Dim [y])) 16000")
    case (Inl e)
    with assms p show ?thesis
      by (simp add: transcribe_try_def SAMPLE_RATE_def)
  next
    case (Inr inputs)
    with l show ?thesis by (intro exI [of _ y] exI [of _ rate] exI [of _ inputs]) simp
  qed
qed

text \<open>A failing write is one of the staging failures.\<close>

lemma stage_write_error:
  assumes "tmp_error E = None"
    and "find (\<lambda>p. files w p = None) (map (\<lambda>n. n @ ''.wav'') (tmp_names E)) = Some p"
    and "read_result r = Inr contents" and "write_error E = Some e"
  shows "fst (stage E r w) = Inl e"
  using assms by (simp add: stage_def NamedTemporaryFile_def)

end
